theory Spec2Isabelle
  imports Complex_Main "HOL-Library.Monad_Syntax"
begin

section \<open>Numbers, arrays and failure\<close>

text \<open>
  Python floats are idealised as the reals: no rounding, no NaN, and the data held by a
  layer is finite. One effect of the doubles is modelled, because it changes what a query
  answers: arithmetic on the running maximum of a bar layer that overflows to
  \<open>float('-inf')\<close> (\<open>float_max_result\<close> below). A call that can raise returns an \<open>option\<close>: \<open>None\<close> means an
  exception left the function. The option type is also used, as usual, for attributes
  that hold Python's \<open>None\<close>; which of the two is meant is said at each definition.
\<close>

text \<open>\<open>np.min\<close> and \<open>np.max\<close> raise ValueError on a zero-size array.\<close>

fun np_min :: "real list \<Rightarrow> real option" where
  "np_min [] = None"
| "np_min (x # xs) = Some (fold min xs x)"

fun np_max :: "real list \<Rightarrow> real option" where
  "np_max [] = None"
| "np_max (x # xs) = Some (fold max xs x)"

text \<open>
  The running extreme of an extent query. It starts at \<open>float('inf')\<close> in a minimum
  query and at \<open>float('-inf')\<close> in a maximum query: \<open>Sentinel\<close> is that start value,
  \<open>Seen v\<close> a finite value. \<open>acc_min a v\<close> is \<open>min(min_val, v)\<close> and \<open>acc_max a v\<close> is
  \<open>max(max_val, v)\<close> for a finite \<open>v\<close>.
\<close>

datatype acc = Sentinel | Seen real

fun acc_min :: "acc \<Rightarrow> real \<Rightarrow> acc" where
  "acc_min Sentinel v = Seen v"
| "acc_min (Seen m) v = Seen (min m v)"

fun acc_max :: "acc \<Rightarrow> real \<Rightarrow> acc" where
  "acc_max Sentinel v = Seen v"
| "acc_max (Seen m) v = Seen (max m v)"

text \<open>\<open>0.0 if val == float('inf') else val\<close>, and the same with \<open>float('-inf')\<close>.\<close>

fun acc_result :: "acc \<Rightarrow> real" where
  "acc_result Sentinel = 0"
| "acc_result (Seen v) = v"

section \<open>Layers\<close>

text \<open>
  A value stored in the base layer's \<open>_data\<close> dictionary (\<open>Layer.add_data(key, data)\<close>
  takes anything).
\<close>

datatype pyval = PyNum real | PyArr "real list" | PyStr string

text \<open>
  An entry of \<open>data_series\<close>: the arrays under the keys \<open>'x'\<close> and \<open>'y'\<close>. The style
  keys of the entry play no part in the extent queries and are left out. Both keys are
  present in every entry \<open>add_data\<close> creates, so the tests \<open>'x' in series\<close> and
  \<open>'y' in series\<close> of the source are true.
\<close>

record series =
  sx :: "real list"
  sy :: "real list"

text \<open>
  The statistics \<open>SummaryLayer.add_data_point\<close> stores under a label; the percentile
  pairs are left out. The key \<open>'min'\<close> and the key \<open>'max'\<close> are always present.
\<close>

record stats =
  st_min :: real
  st_max :: real
  st_mean :: real
  st_median :: real

text \<open>
  The subclasses of \<open>Layer\<close> and the attributes each adds. \<open>x_data\<close> and \<open>y_data\<close> are
  \<open>None\<close> until a default series is added. The axis layers override no extent query and
  add no data attribute, so they are \<open>Base\<close> here. Dictionaries are association lists
  in insertion order.
\<close>

datatype variant =
    Base
  | Line (x_data: "real list option") (y_data: "real list option")
         (data_series: "(string \<times> series) list")
  | Bar (x_data: "real list option") (y_data: "real list option")
        (data_series: "(string \<times> series) list")
  | Summary (data_points: "(string \<times> stats) list") (labels: "string list")

datatype LayerPosition = Top | Bottom | Left | Right | Center

record layer =
  l_name :: string
  l_visible :: bool
  l_position :: LayerPosition
  l_movable :: bool
  l_order :: int
  l_data :: "(string \<times> pyval) list"
  l_selected :: bool
  l_highlighted :: bool
  l_variant :: variant

definition Layer_init :: "string \<Rightarrow> variant \<Rightarrow> layer" where
  "Layer_init nm var = \<lparr> l_name = nm, l_visible = True, l_position = Center,
     l_movable = False, l_order = 0, l_data = [],
     l_selected = False, l_highlighted = False, l_variant = var \<rparr>"

definition LineLayer_init :: "string \<Rightarrow> layer" where
  "LineLayer_init nm = Layer_init nm (Line None None [])"

definition BarLayer_init :: "string \<Rightarrow> layer" where
  "BarLayer_init nm = Layer_init nm (Bar None None [])"

definition SummaryLayer_init :: "string \<Rightarrow> layer" where
  "SummaryLayer_init nm = Layer_init nm (Summary [] [])"

text \<open>\<open>d[k] = v\<close> on a dictionary kept as an association list.\<close>

fun dict_set :: "'k \<Rightarrow> 'v \<Rightarrow> ('k \<times> 'v) list \<Rightarrow> ('k \<times> 'v) list" where
  "dict_set k v [] = [(k, v)]"
| "dict_set k v ((k', v') # kvs) =
     (if k' = k then (k, v) # kvs else (k', v') # dict_set k v kvs)"

text \<open>
  \<open>add_data\<close>. The base class stores under a key of \<open>_data\<close>. \<open>LineLayer\<close> and
  \<open>BarLayer\<close> override it: the series named \<open>'default'\<close> goes to \<open>x_data\<close> and
  \<open>y_data\<close>, any other to \<open>data_series\<close>; \<open>_data\<close> is not touched.
\<close>

definition Layer_add_data :: "string \<Rightarrow> pyval \<Rightarrow> layer \<Rightarrow> layer" where
  "Layer_add_data key d l = l\<lparr> l_data := dict_set key d (l_data l) \<rparr>"

fun variant_add_data :: "real list \<Rightarrow> real list \<Rightarrow> string \<Rightarrow> variant \<Rightarrow> variant" where
  "variant_add_data x y series_name (Line xd yd ds) =
     (if series_name = ''default'' then Line (Some x) (Some y) ds
      else Line xd yd (dict_set series_name \<lparr> sx = x, sy = y \<rparr> ds))"
| "variant_add_data x y series_name (Bar xd yd ds) =
     (if series_name = ''default'' then Bar (Some x) (Some y) ds
      else Bar xd yd (dict_set series_name \<lparr> sx = x, sy = y \<rparr> ds))"
| "variant_add_data x y series_name v = v"

definition add_data :: "real list \<Rightarrow> real list \<Rightarrow> string \<Rightarrow> layer \<Rightarrow> layer" where
  "add_data x y series_name l =
     l\<lparr> l_variant := variant_add_data x y series_name (l_variant l) \<rparr>"

subsection \<open>Extent queries\<close>

text \<open>
  The scan shared by the eight queries of \<open>LineLayer\<close> and \<open>BarLayer\<close>: first the
  default array, if it is not \<open>None\<close> and not empty, then every entry of
  \<open>data_series\<close> whose array is not empty. \<open>None\<close> as a result is an exception of
  \<open>np.min\<close> or \<open>np.max\<close>.
\<close>

definition scan_default_min :: "real list option \<Rightarrow> acc option" where
  "scan_default_min d =
     (case d of
        None \<Rightarrow> Some Sentinel
      | Some xs \<Rightarrow> if length xs > 0 then do { m \<leftarrow> np_min xs; Some (acc_min Sentinel m) }
                   else Some Sentinel)"

definition scan_default_max :: "real list option \<Rightarrow> acc option" where
  "scan_default_max d =
     (case d of
        None \<Rightarrow> Some Sentinel
      | Some xs \<Rightarrow> if length xs > 0 then do { m \<leftarrow> np_max xs; Some (acc_max Sentinel m) }
                   else Some Sentinel)"

fun scan_series_min :: "(series \<Rightarrow> real list) \<Rightarrow> acc \<Rightarrow> series list \<Rightarrow> acc option" where
  "scan_series_min sel a [] = Some a"
| "scan_series_min sel a (s # ss) =
     (if length (sel s) > 0
      then do { m \<leftarrow> np_min (sel s); scan_series_min sel (acc_min a m) ss }
      else scan_series_min sel a ss)"

fun scan_series_max :: "(series \<Rightarrow> real list) \<Rightarrow> acc \<Rightarrow> series list \<Rightarrow> acc option" where
  "scan_series_max sel a [] = Some a"
| "scan_series_max sel a (s # ss) =
     (if length (sel s) > 0
      then do { m \<leftarrow> np_max (sel s); scan_series_max sel (acc_max a m) ss }
      else scan_series_max sel a ss)"

definition scan_min ::
  "real list option \<Rightarrow> (series \<Rightarrow> real list) \<Rightarrow> (string \<times> series) list \<Rightarrow> acc option" where
  "scan_min d sel ds = do { a \<leftarrow> scan_default_min d; scan_series_min sel a (map snd ds) }"

definition scan_max ::
  "real list option \<Rightarrow> (series \<Rightarrow> real list) \<Rightarrow> (string \<times> series) list \<Rightarrow> acc option" where
  "scan_max d sel ds = do { a \<leftarrow> scan_default_max d; scan_series_max sel a (map snd ds) }"

text \<open>
  Arithmetic on the running maximum of a bar layer. The source keeps the start value
  \<open>float('-inf')\<close> in the variable that also holds the data and tests for it after the
  arithmetic, so a result that overflows downwards is the start value again and is
  answered with \<open>0.0\<close>. Under round-to-nearest a double result at or below
  \<open>-(2^1024 - 2^970)\<close> is \<open>-inf\<close>. The rounding of a finite result and the overflow
  upwards to \<open>+inf\<close> are not modelled.
\<close>

definition overflow_bound :: real where
  "overflow_bound = 2 ^ 1024 - 2 ^ 970"

definition float_max_result :: "real \<Rightarrow> acc" where
  "float_max_result r = (if r \<le> - overflow_bound then Sentinel else Seen r)"

text \<open>\<open>BarLayer.max_x\<close>: half of the first x-spacing is added as padding.\<close>

definition bar_pad_x :: "real list option \<Rightarrow> acc \<Rightarrow> acc" where
  "bar_pad_x xd a =
     (case a of
        Sentinel \<Rightarrow> Sentinel
      | Seen m \<Rightarrow>
          (case xd of
             None \<Rightarrow> Seen m
           | Some xs \<Rightarrow> if length xs > 1 then float_max_result (m + (xs ! 1 - xs ! 0) * 0.5)
                        else Seen m))"

text \<open>
  \<open>BarLayer.min_y\<close>: \<open>if min_val > 0: return 0.0\<close>, which the start value
  \<open>float('inf')\<close> satisfies too.
\<close>

definition bar_floor_y :: "acc \<Rightarrow> real" where
  "bar_floor_y a =
     (if (case a of Sentinel \<Rightarrow> True | Seen m \<Rightarrow> m > 0) then 0 else acc_result a)"

text \<open>\<open>BarLayer.max_y\<close>: \<open>if max_val != float('-inf'): max_val *= 1.05\<close>.\<close>

definition bar_pad_y :: "acc \<Rightarrow> acc" where
  "bar_pad_y a = (case a of Sentinel \<Rightarrow> Sentinel | Seen m \<Rightarrow> float_max_result (m * 1.05))"

text \<open>\<open>SummaryLayer\<close>: the loops over \<open>data_points.values()\<close>.\<close>

fun scan_stats_min :: "acc \<Rightarrow> stats list \<Rightarrow> acc" where
  "scan_stats_min a [] = a"
| "scan_stats_min a (s # ss) = scan_stats_min (acc_min a (st_min s)) ss"

fun scan_stats_max :: "acc \<Rightarrow> stats list \<Rightarrow> acc" where
  "scan_stats_max a [] = a"
| "scan_stats_max a (s # ss) = scan_stats_max (acc_max a (st_max s)) ss"

text \<open>The four queries, dispatched on the class of the layer.\<close>

fun variant_min_x :: "variant \<Rightarrow> real option" where
  "variant_min_x Base = Some 0"
| "variant_min_x (Line xd yd ds) = do { a \<leftarrow> scan_min xd sx ds; Some (acc_result a) }"
| "variant_min_x (Bar xd yd ds) = do { a \<leftarrow> scan_min xd sx ds; Some (acc_result a) }"
| "variant_min_x (Summary dp lb) = (if lb = [] then Some 0 else Some 0)"

fun variant_max_x :: "variant \<Rightarrow> real option" where
  "variant_max_x Base = Some 0"
| "variant_max_x (Line xd yd ds) = do { a \<leftarrow> scan_max xd sx ds; Some (acc_result a) }"
| "variant_max_x (Bar xd yd ds) =
     do { a \<leftarrow> scan_max xd sx ds; Some (acc_result (bar_pad_x xd a)) }"
| "variant_max_x (Summary dp lb) = (if lb = [] then Some 0 else Some (real (length lb)))"

fun variant_min_y :: "variant \<Rightarrow> real option" where
  "variant_min_y Base = Some 0"
| "variant_min_y (Line xd yd ds) = do { a \<leftarrow> scan_min yd sy ds; Some (acc_result a) }"
| "variant_min_y (Bar xd yd ds) = do { a \<leftarrow> scan_min yd sy ds; Some (bar_floor_y a) }"
| "variant_min_y (Summary dp lb) = Some (acc_result (scan_stats_min Sentinel (map snd dp)))"

fun variant_max_y :: "variant \<Rightarrow> real option" where
  "variant_max_y Base = Some 0"
| "variant_max_y (Line xd yd ds) = do { a \<leftarrow> scan_max yd sy ds; Some (acc_result a) }"
| "variant_max_y (Bar xd yd ds) =
     do { a \<leftarrow> scan_max yd sy ds; Some (acc_result (bar_pad_y a)) }"
| "variant_max_y (Summary dp lb) = Some (acc_result (scan_stats_max Sentinel (map snd dp)))"

definition Layer_min_x :: "layer \<Rightarrow> real option" where
  "Layer_min_x l = variant_min_x (l_variant l)"

definition Layer_max_x :: "layer \<Rightarrow> real option" where
  "Layer_max_x l = variant_max_x (l_variant l)"

definition Layer_min_y :: "layer \<Rightarrow> real option" where
  "Layer_min_y l = variant_min_y (l_variant l)"

definition Layer_max_y :: "layer \<Rightarrow> real option" where
  "Layer_max_y l = variant_max_y (l_variant l)"

section \<open>Graph (a pane)\<close>

text \<open>
  The attributes \<open>_min_x\<close>, \<open>_max_x\<close>, \<open>_min_y\<close>, \<open>_max_y\<close> are the fields
  \<open>g_min_x\<close> ... \<open>g_max_y\<close>; they hold \<open>None\<close> until computed or set.
  \<open>_layers_by_name\<close> indexes the objects of \<open>layers\<close> for lookup and removal and is
  left out.
\<close>

record graph =
  g_name :: string
  g_title :: string
  g_units :: string
  g_visible :: bool
  g_min_height :: int
  g_max_height :: int
  g_height :: int
  g_show_title :: bool
  g_min_x :: "real option"
  g_max_x :: "real option"
  g_min_y :: "real option"
  g_max_y :: "real option"
  layers :: "layer list"
  g_current_time :: "real option"

definition Graph_init :: "string \<Rightarrow> string \<Rightarrow> string \<Rightarrow> int \<Rightarrow> graph" where
  "Graph_init nm title units min_height =
     \<lparr> g_name = nm, g_title = title, g_units = units, g_visible = True,
       g_min_height = min_height, g_max_height = 1000, g_height = min_height,
       g_show_title = True, g_min_x = None, g_max_x = None, g_min_y = None, g_max_y = None,
       layers = [], g_current_time = None \<rparr>"

text \<open>\<open>add_layer\<close>: append, then the stable sort by \<open>order\<close>.\<close>

definition add_layer :: "layer \<Rightarrow> LayerPosition \<Rightarrow> int \<Rightarrow> bool \<Rightarrow> graph \<Rightarrow> graph" where
  "add_layer l position ord movable g =
     g\<lparr> layers := sort_key l_order
          (layers g @ [l\<lparr> l_position := position, l_order := ord, l_movable := movable \<rparr>]) \<rparr>"

subsection \<open>Bounds\<close>

text \<open>
  \<open>if self._min_x is None or layer.min_x() < self._min_x: self._min_x = layer.min_x()\<close>
  and its mirror image for a maximum.
\<close>

definition keep_min :: "real option \<Rightarrow> real \<Rightarrow> real option" where
  "keep_min cur v = (case cur of None \<Rightarrow> Some v | Some c \<Rightarrow> if v < c then Some v else Some c)"

definition keep_max :: "real option \<Rightarrow> real \<Rightarrow> real option" where
  "keep_max cur v = (case cur of None \<Rightarrow> Some v | Some c \<Rightarrow> if v > c then Some v else Some c)"

text \<open>
  The loop of \<open>reset_bounds\<close> over the layers; a hidden layer is skipped. Each of the
  four queries of a visible layer is evaluated, in this order, whatever the tests decide.
\<close>

fun reset_loop :: "layer list \<Rightarrow> graph \<Rightarrow> graph option" where
  "reset_loop [] g = Some g"
| "reset_loop (l # ls) g =
     (if \<not> l_visible l then reset_loop ls g
      else do {
        x0 \<leftarrow> Layer_min_x l;
        x1 \<leftarrow> Layer_max_x l;
        y0 \<leftarrow> Layer_min_y l;
        y1 \<leftarrow> Layer_max_y l;
        reset_loop ls (g\<lparr> g_min_x := keep_min (g_min_x g) x0, g_max_x := keep_max (g_max_x g) x1,
                          g_min_y := keep_min (g_min_y g) y0, g_max_y := keep_max (g_max_y g) y1 \<rparr>)
      })"

text \<open>The default values \<open>0, 1, 0, 1\<close> for whatever is still \<open>None\<close> after the loop.\<close>

definition default_bounds :: "graph \<Rightarrow> graph" where
  "default_bounds g =
     g\<lparr> g_min_x := Some (case g_min_x g of None \<Rightarrow> 0 | Some v \<Rightarrow> v),
        g_max_x := Some (case g_max_x g of None \<Rightarrow> 1 | Some v \<Rightarrow> v),
        g_min_y := Some (case g_min_y g of None \<Rightarrow> 0 | Some v \<Rightarrow> v),
        g_max_y := Some (case g_max_y g of None \<Rightarrow> 1 | Some v \<Rightarrow> v) \<rparr>"

text \<open>
  The margin on the y-axis. Subtracting with a \<open>None\<close> operand would raise TypeError,
  which is the result \<open>None\<close> here.
\<close>

definition add_margin :: "graph \<Rightarrow> graph option" where
  "add_margin g =
     (case (g_min_y g, g_max_y g) of
        (Some lo, Some hi) \<Rightarrow>
          (let y_range = hi - lo;
               y_range = (if y_range = 0 then 1 else y_range)
           in Some (g\<lparr> g_min_y := Some (lo - y_range * 0.05),
                         g_max_y := Some (hi + y_range * 0.05) \<rparr>))
      | _ \<Rightarrow> None)"

definition Graph_reset_bounds :: "graph \<Rightarrow> graph option" where
  "Graph_reset_bounds g = do {
     g1 \<leftarrow> reset_loop (layers g)
            (g\<lparr> g_min_x := None, g_max_x := None, g_min_y := None, g_max_y := None \<rparr>);
     add_margin (default_bounds g1)
   }"

definition Graph_set_x_bounds :: "real \<Rightarrow> real \<Rightarrow> graph \<Rightarrow> graph" where
  "Graph_set_x_bounds mn mx g = g\<lparr> g_min_x := Some mn, g_max_x := Some mx \<rparr>"

definition Graph_set_y_bounds :: "real \<Rightarrow> real \<Rightarrow> graph \<Rightarrow> graph" where
  "Graph_set_y_bounds mn mx g = g\<lparr> g_min_y := Some mn, g_max_y := Some mx \<rparr>"

text \<open>
  The four reads. Each calls \<open>reset_bounds\<close> when its own attribute is \<open>None\<close> and then
  returns the attribute; the result is the value read and the graph as the read left it.
  \<open>reset_bounds\<close> leaves no attribute \<open>None\<close> (lemma \<open>reset_bounds_known\<close> below), so
  the read never returns \<open>None\<close>; \<open>read_attr\<close> turns that impossible return into
  failure.
\<close>

definition read_attr :: "(graph \<Rightarrow> real option) \<Rightarrow> graph \<Rightarrow> (real \<times> graph) option" where
  "read_attr attr g = (case attr g of None \<Rightarrow> None | Some v \<Rightarrow> Some (v, g))"

definition lazy_read :: "(graph \<Rightarrow> real option) \<Rightarrow> graph \<Rightarrow> (real \<times> graph) option" where
  "lazy_read attr g = do {
     g' \<leftarrow> (if attr g = None then Graph_reset_bounds g else Some g);
     read_attr attr g'
   }"

definition Graph_min_x :: "graph \<Rightarrow> (real \<times> graph) option" where
  "Graph_min_x g = lazy_read g_min_x g"

definition Graph_max_x :: "graph \<Rightarrow> (real \<times> graph) option" where
  "Graph_max_x g = lazy_read g_max_x g"

definition Graph_min_y :: "graph \<Rightarrow> (real \<times> graph) option" where
  "Graph_min_y g = lazy_read g_min_y g"

definition Graph_max_y :: "graph \<Rightarrow> (real \<times> graph) option" where
  "Graph_max_y g = lazy_read g_max_y g"

subsection \<open>Emptiness\<close>

text \<open>
  \<open>is_empty\<close> tests
  \<open>layer.visible and not isinstance(layer._data, dict) or len(layer._data) > 0\<close>,
  which Python reads as \<open>(A and B) or C\<close>. \<open>_data\<close> is the dictionary made by
  \<open>Layer.__init__\<close> and nothing rebinds it, so \<open>isinstance\<close> holds.
\<close>

definition isinstance_dict :: "(string \<times> pyval) list \<Rightarrow> bool" where
  "isinstance_dict d = True"

fun is_empty_loop :: "layer list \<Rightarrow> bool" where
  "is_empty_loop [] = True"
| "is_empty_loop (l # ls) =
     (if (l_visible l \<and> \<not> isinstance_dict (l_data l)) \<or> length (l_data l) > 0 then False
      else is_empty_loop ls)"

definition Graph_is_empty :: "graph \<Rightarrow> bool" where
  "Graph_is_empty g = is_empty_loop (layers g)"

subsection \<open>Rendering\<close>

text \<open>
  \<open>render\<close> draws through matplotlib, which is not modelled. What it does to the graph
  is kept: nothing when the graph is hidden; otherwise the reads \<open>min_x()\<close>, \<open>max_x()\<close>,
  \<open>min_y()\<close>, \<open>max_y()\<close> for the axis limits and the same four reads again for each
  visible layer.
\<close>

definition read_bounds :: "graph \<Rightarrow> graph option" where
  "read_bounds g = do {
     (_, g) \<leftarrow> Graph_min_x g;
     (_, g) \<leftarrow> Graph_max_x g;
     (_, g) \<leftarrow> Graph_min_y g;
     (_, g) \<leftarrow> Graph_max_y g;
     Some g
   }"

fun render_layers :: "layer list \<Rightarrow> graph \<Rightarrow> graph option" where
  "render_layers [] g = Some g"
| "render_layers (l # ls) g =
     (if l_visible l then do { g' \<leftarrow> read_bounds g; render_layers ls g' }
      else render_layers ls g)"

definition Graph_render :: "graph \<Rightarrow> graph option" where
  "Graph_render g =
     (if \<not> g_visible g then Some g
      else do { g' \<leftarrow> read_bounds g; render_layers (layers g') g' })"

section \<open>GraphView\<close>

text \<open>
  \<open>self.graphs\<close> and the lists of \<open>self.linked_groups\<close> refer to the same \<open>Graph\<close>
  objects, so the objects live in a store indexed by address and the lists hold addresses.
  \<open>fig\<close> says whether \<open>self.fig\<close> is not \<open>None\<close>, \<open>axes\<close> is \<open>len(self.axes)\<close>.
  \<open>_graphs_by_name\<close>, \<open>toolbar\<close> and \<open>empty_text\<close> are left out.
\<close>

record graph_view =
  gv_title :: string
  store :: "nat \<Rightarrow> graph"
  graphs :: "nat list"
  linked_groups :: "int \<rightharpoonup> nat list"
  fig :: bool
  axes :: nat
  selecting :: bool
  selection_start :: "real option"
  selection_end :: "real option"
  gv_current_time :: "real option"
  history :: "(real \<times> real) list"
  history_position :: int

definition GraphView_init :: "string \<Rightarrow> (nat \<Rightarrow> graph) \<Rightarrow> graph_view" where
  "GraphView_init title st =
     \<lparr> gv_title = title, store = st, graphs = [], linked_groups = Map.empty, fig = False,
       axes = 0, selecting = False, selection_start = None, selection_end = None,
       gv_current_time = None, history = [], history_position = - 1 \<rparr>"

definition add_graph :: "nat \<Rightarrow> int \<Rightarrow> graph_view \<Rightarrow> graph_view" where
  "add_graph r grp v =
     (let v = v\<lparr> graphs := graphs v @ [r] \<rparr>
      in if grp > 0
         then v\<lparr> linked_groups := (linked_groups v)
                (grp \<mapsto> (case linked_groups v grp of None \<Rightarrow> [] | Some m \<Rightarrow> m) @ [r]) \<rparr>
         else v)"

text \<open>\<open>for graph in ...: graph.set_x_bounds(min_x, max_x)\<close>.\<close>

fun set_x_each :: "real \<Rightarrow> real \<Rightarrow> nat list \<Rightarrow> (nat \<Rightarrow> graph) \<Rightarrow> (nat \<Rightarrow> graph)" where
  "set_x_each mn mx [] st = st"
| "set_x_each mn mx (r # rs) st = set_x_each mn mx rs (st(r := Graph_set_x_bounds mn mx (st r)))"

text \<open>
  \<open>update_display\<close>: nothing without a figure; otherwise the visible graphs are
  enumerated and the one at index \<open>i\<close> is rendered if \<open>i < len(self.axes)\<close>.
\<close>

fun display_loop :: "nat \<Rightarrow> nat \<Rightarrow> nat list \<Rightarrow> (nat \<Rightarrow> graph) \<Rightarrow> (nat \<Rightarrow> graph) option" where
  "display_loop n i [] st = Some st"
| "display_loop n i (r # rs) st =
     (if i < n then do { g' \<leftarrow> Graph_render (st r); display_loop n (Suc i) rs (st(r := g')) }
      else display_loop n (Suc i) rs st)"

definition update_display :: "graph_view \<Rightarrow> graph_view option" where
  "update_display v =
     (if \<not> fig v then Some v
      else do {
        st \<leftarrow> display_loop (axes v) 0 (filter (\<lambda>r. g_visible (store v r)) (graphs v)) (store v);
        Some (v\<lparr> store := st \<rparr>)
      })"

text \<open>
  \<open>set_x_bounds\<close>. The test \<open>group > 0 and group in self.linked_groups\<close> selects the
  members of the group; in every other case the \<open>else\<close> branch sets all graphs.
\<close>

definition GraphView_set_x_bounds :: "real \<Rightarrow> real \<Rightarrow> int \<Rightarrow> graph_view \<Rightarrow> graph_view option" where
  "GraphView_set_x_bounds mn mx grp v =
     (let v = (case (if grp > 0 then linked_groups v grp else None) of
                 Some members \<Rightarrow> v\<lparr> store := set_x_each mn mx members (store v) \<rparr>
               | None \<Rightarrow> v\<lparr> store := set_x_each mn mx (graphs v) (store v) \<rparr>);
          v = (if history v = [] \<or> (fst (last (history v)) \<noteq> mn \<or> snd (last (history v)) \<noteq> mx)
               then v\<lparr> history := history v @ [(mn, mx)],
                      history_position := int (length (history v @ [(mn, mx)])) - 1 \<rparr>
               else v)
      in if fig v then update_display v else Some v)"

text \<open>
  The part of a matplotlib mouse event the handlers read: whether \<open>event.inaxes\<close> is not
  \<open>None\<close>, \<open>event.button\<close> and \<open>event.xdata\<close>.
\<close>

record mouse_event =
  inaxes :: bool
  button :: string
  xdata :: real

definition on_scroll :: "mouse_event \<Rightarrow> graph_view \<Rightarrow> graph_view option" where
  "on_scroll event v =
     (if \<not> inaxes event then Some v
      else case graphs v of
        [] \<Rightarrow> Some v
      | r # _ \<Rightarrow> do {
          (min_x, g) \<leftarrow> Graph_min_x (store v r);
          (max_x, g) \<leftarrow> Graph_max_x g;
          let v = v\<lparr> store := (store v)(r := g) \<rparr>;
              range_x = max_x - min_x;
              scale = 0.1;
              new_range = (if button event = ''up'' then range_x * (1 - scale)
                           else range_x * (1 + scale));
              center = xdata event;
              new_min = center - new_range / 2;
              new_max = center + new_range / 2
          in GraphView_set_x_bounds new_min new_max 0 v
        })"

text \<open>
  \<open>self.history[self.history_position]\<close>: an index from \<open>0\<close> to \<open>len - 1\<close> reads from
  the front, one from \<open>-len\<close> to \<open>-1\<close> reads from the back, and any other raises
  IndexError (the result \<open>None\<close>).
\<close>

definition py_index :: "'a list \<Rightarrow> int \<Rightarrow> 'a option" where
  "py_index xs i =
     (if 0 \<le> i \<and> i < int (length xs) then Some (xs ! nat i)
      else if - int (length xs) \<le> i \<and> i < 0 then Some (xs ! nat (int (length xs) + i))
      else None)"

definition on_back :: "graph_view \<Rightarrow> graph_view option" where
  "on_back v =
     (if history_position v > 0
      then do {
        let v = v\<lparr> history_position := history_position v - 1 \<rparr>;
        (min_x, max_x) \<leftarrow> py_index (history v) (history_position v);
        update_display (v\<lparr> store := set_x_each min_x max_x (graphs v) (store v) \<rparr>)
      }
      else Some v)"

definition on_forward :: "graph_view \<Rightarrow> graph_view option" where
  "on_forward v =
     (if history_position v < int (length (history v)) - 1
      then do {
        let v = v\<lparr> history_position := history_position v + 1 \<rparr>;
        (min_x, max_x) \<leftarrow> py_index (history v) (history_position v);
        update_display (v\<lparr> store := set_x_each min_x max_x (graphs v) (store v) \<rparr>)
      }
      else Some v)"

section \<open>Notions used by the properties\<close>

text \<open>The four bounds of a graph, as stored.\<close>

definition bounds_of :: "graph \<Rightarrow> real option \<times> real option \<times> real option \<times> real option" where
  "bounds_of g = (g_min_x g, g_max_x g, g_min_y g, g_max_y g)"

text \<open>All four bounds of a graph have been computed or set.\<close>

definition known :: "graph \<Rightarrow> bool" where
  "known g = (g_min_x g \<noteq> None \<and> g_max_x g \<noteq> None \<and> g_min_y g \<noteq> None \<and> g_max_y g \<noteq> None)"

text \<open>
  A layer that contains no data: nothing under \<open>_data\<close>, and for the subclasses no
  default array or an empty one, only empty arrays in \<open>data_series\<close>, no data point and
  no label.
\<close>

fun variant_no_data :: "variant \<Rightarrow> bool" where
  "variant_no_data Base = True"
| "variant_no_data (Line xd yd ds) =
     ((xd = None \<or> xd = Some []) \<and> (yd = None \<or> yd = Some []) \<and>
      list_all (\<lambda>s. sx s = [] \<and> sy s = []) (map snd ds))"
| "variant_no_data (Bar xd yd ds) =
     ((xd = None \<or> xd = Some []) \<and> (yd = None \<or> yd = Some []) \<and>
      list_all (\<lambda>s. sx s = [] \<and> sy s = []) (map snd ds))"
| "variant_no_data (Summary dp lb) = (dp = [] \<and> lb = [])"

definition no_data :: "layer \<Rightarrow> bool" where
  "no_data l = (l_data l = [] \<and> variant_no_data (l_variant l))"

text \<open>The four bounds of the pane at address \<open>r\<close> of a view.\<close>

definition pane_bounds ::
  "nat \<Rightarrow> graph_view \<Rightarrow> real option \<times> real option \<times> real option \<times> real option" where
  "pane_bounds r v = bounds_of (store v r)"

text \<open>
  The panes a call \<open>set_x_bounds(min_x, max_x, group)\<close> writes to: the members of the group
  if the group is positive and registered, all panes of the view otherwise.
\<close>

definition targets :: "int \<Rightarrow> graph_view \<Rightarrow> nat list" where
  "targets grp v =
     (case (if grp > 0 then linked_groups v grp else None) of
        Some members \<Rightarrow> members
      | None \<Rightarrow> graphs v)"



section \<open>Extent queries never raise\<close>

lemma np_min_Min: "xs \<noteq> [] \<Longrightarrow> np_min xs = Some (Min (set xs))"
proof (cases xs)
  case Nil
  then show "xs \<noteq> [] \<Longrightarrow> ?thesis" by simp
next
  case (Cons a as)
  then show ?thesis using Min.set_eq_fold [of a as] by simp
qed

lemma np_max_Max: "xs \<noteq> [] \<Longrightarrow> np_max xs = Some (Max (set xs))"
proof (cases xs)
  case Nil
  then show "xs \<noteq> [] \<Longrightarrow> ?thesis" by simp
next
  case (Cons a as)
  then show ?thesis using Max.set_eq_fold [of a as] by simp
qed

lemma scan_default_min_total: "\<exists>a. scan_default_min d = Some a"
  by (cases d) (auto simp: scan_default_min_def np_min_Min)

lemma scan_default_max_total: "\<exists>a. scan_default_max d = Some a"
  by (cases d) (auto simp: scan_default_max_def np_max_Max)

lemma scan_series_min_total: "\<exists>b. scan_series_min sel a ss = Some b"
  by (induction ss arbitrary: a) (auto simp: np_min_Min)

lemma scan_series_max_total: "\<exists>b. scan_series_max sel a ss = Some b"
  by (induction ss arbitrary: a) (auto simp: np_max_Max)

lemma scan_min_total: "\<exists>a. scan_min d sel ds = Some a"
  using scan_default_min_total [of d] scan_series_min_total
  by (auto simp: scan_min_def)

lemma scan_max_total: "\<exists>a. scan_max d sel ds = Some a"
  using scan_default_max_total [of d] scan_series_max_total
  by (auto simp: scan_max_def)

lemma Layer_min_x_total: "\<exists>r. Layer_min_x l = Some r"
  unfolding Layer_min_x_def using scan_min_total
  by (cases "l_variant l") (auto simp: bind_eq_Some_conv)

lemma Layer_max_x_total: "\<exists>r. Layer_max_x l = Some r"
  unfolding Layer_max_x_def using scan_max_total
  by (cases "l_variant l") (auto simp: bind_eq_Some_conv)

lemma Layer_min_y_total: "\<exists>r. Layer_min_y l = Some r"
  unfolding Layer_min_y_def using scan_min_total
  by (cases "l_variant l") (auto simp: bind_eq_Some_conv)

lemma Layer_max_y_total: "\<exists>r. Layer_max_y l = Some r"
  unfolding Layer_max_y_def using scan_max_total
  by (cases "l_variant l") (auto simp: bind_eq_Some_conv)

subsection \<open>Layers without data\<close>

lemma scan_series_min_empty:
  "list_all (\<lambda>s. sel s = []) ss \<Longrightarrow> scan_series_min sel a ss = Some a"
  by (induction ss) simp_all

lemma scan_series_max_empty:
  "list_all (\<lambda>s. sel s = []) ss \<Longrightarrow> scan_series_max sel a ss = Some a"
  by (induction ss) simp_all

lemma list_all_sx:
  "list_all (\<lambda>s. sx s = [] \<and> sy s = []) ss \<Longrightarrow> list_all (\<lambda>s. sx s = []) ss"
  by (simp add: list_all_iff)

lemma list_all_sy:
  "list_all (\<lambda>s. sx s = [] \<and> sy s = []) ss \<Longrightarrow> list_all (\<lambda>s. sy s = []) ss"
  by (simp add: list_all_iff)

lemma scan_min_no_data:
  "d = None \<or> d = Some [] \<Longrightarrow> list_all (\<lambda>s. sel s = []) (map snd ds)
   \<Longrightarrow> scan_min d sel ds = Some Sentinel"
  by (auto simp: scan_min_def scan_default_min_def scan_series_min_empty)

lemma scan_max_no_data:
  "d = None \<or> d = Some [] \<Longrightarrow> list_all (\<lambda>s. sel s = []) (map snd ds)
   \<Longrightarrow> scan_max d sel ds = Some Sentinel"
  by (auto simp: scan_max_def scan_default_max_def scan_series_max_empty)

lemma no_data_extents:
  assumes "variant_no_data v"
  shows "variant_min_x v = Some 0 \<and> variant_max_x v = Some 0 \<and>
         variant_min_y v = Some 0 \<and> variant_max_y v = Some 0"
proof (cases v)
  case Base
  then show ?thesis by simp
next
  case (Line xd yd ds)
  with assms have "scan_min xd sx ds = Some Sentinel" "scan_max xd sx ds = Some Sentinel"
    "scan_min yd sy ds = Some Sentinel" "scan_max yd sy ds = Some Sentinel"
    by (simp_all add: scan_min_no_data scan_max_no_data list_all_sx list_all_sy)
  with Line show ?thesis by simp
next
  case (Bar xd yd ds)
  with assms have "scan_min xd sx ds = Some Sentinel" "scan_max xd sx ds = Some Sentinel"
    "scan_min yd sy ds = Some Sentinel" "scan_max yd sy ds = Some Sentinel"
    by (simp_all add: scan_min_no_data scan_max_no_data list_all_sx list_all_sy)
  with Bar show ?thesis by (simp add: bar_pad_x_def bar_floor_y_def bar_pad_y_def)
next
  case (Summary dp lb)
  with assms show ?thesis by simp
qed

lemma no_data_layer_extents:
  "no_data l \<Longrightarrow> Layer_min_x l = Some 0 \<and> Layer_max_x l = Some 0 \<and>
     Layer_min_y l = Some 0 \<and> Layer_max_y l = Some 0"
  using no_data_extents [of "l_variant l"]
  by (simp add: no_data_def Layer_min_x_def Layer_max_x_def Layer_min_y_def Layer_max_y_def)

text \<open>
  C9: a layer of any class that contains no data answers each of \<open>min_x()\<close>, \<open>max_x()\<close>,
  \<open>min_y()\<close>, \<open>max_y()\<close> with 0, and the query returns (it does not raise).
\<close>

theorem C9_empty_layer_extents:
  assumes "no_data l"
  shows "Layer_min_x l = Some 0 \<and> Layer_max_x l = Some 0 \<and>
         Layer_min_y l = Some 0 \<and> Layer_max_y l = Some 0"
  using assms by (rule no_data_layer_extents)

theorem C9_empty_layer_extents_witness:
  "no_data (add_data [] [] ''s'' (BarLayer_init ''bars'')) \<and>
   Layer_min_x (add_data [] [] ''s'' (BarLayer_init ''bars'')) = Some 0 \<and>
   Layer_max_x (add_data [] [] ''s'' (BarLayer_init ''bars'')) = Some 0 \<and>
   Layer_min_y (add_data [] [] ''s'' (BarLayer_init ''bars'')) = Some 0 \<and>
   Layer_max_y (add_data [] [] ''s'' (BarLayer_init ''bars'')) = Some 0"
proof -
  have h: "no_data (add_data [] [] ''s'' (BarLayer_init ''bars''))"
    by (simp add: no_data_def add_data_def BarLayer_init_def Layer_init_def)
  show ?thesis using h C9_empty_layer_extents [OF h] by simp
qed

subsection \<open>Bar layers\<close>

lemma overflow_bound_pos: "0 < overflow_bound"
  by (simp add: overflow_bound_def)


lemma Max_positive: "ys \<noteq> [] \<Longrightarrow> \<forall>y\<in>set ys. 0 < y \<Longrightarrow> 0 < Max (set ys)"
  using Max_in [of "set ys"] by simp


text \<open>
  C8: a bar layer whose only data is a default series with strictly positive y-values
  reports \<open>min_y() = 0\<close> and \<open>max_y() = 1.05 * max(y)\<close>; for \<open>y = [10, 20, 30]\<close> that
  is 0 and 31.5 (the witness).
\<close>

theorem C8_bar_positive_extent:
  assumes "l_variant l = Bar (Some xs) (Some ys) []" and "ys \<noteq> []" and "\<forall>y\<in>set ys. 0 < y"
  shows "Layer_min_y l = Some 0 \<and> Layer_max_y l = Some (1.05 * Max (set ys))"
proof -
  have "0 < Max (set ys) * 1.05" using Max_positive [OF assms(2,3)] by simp
  then have "\<not> Max (set ys) * 1.05 \<le> - overflow_bound"
    using overflow_bound_pos by linarith
  then have "float_max_result (Max (set ys) * 1.05) = Seen (Max (set ys) * 1.05)"
    by (simp add: float_max_result_def)
  then show ?thesis
    using assms
    by (simp add: Layer_min_y_def Layer_max_y_def scan_min_def scan_max_def
        scan_default_min_def scan_default_max_def np_min_Min np_max_Max bar_floor_y_def
        bar_pad_y_def)
qed

theorem C8_bar_positive_extent_witness:
  "l_variant (add_data [0, 1, 2] [10, 20, 30] ''default'' (BarLayer_init ''bars''))
     = Bar (Some [0, 1, 2]) (Some [10, 20, 30]) [] \<and>
   [10, 20, 30 :: real] \<noteq> [] \<and> list_all (\<lambda>y. 0 < y) [10, 20, 30 :: real] \<and>
   Layer_min_y (add_data [0, 1, 2] [10, 20, 30] ''default'' (BarLayer_init ''bars'')) = Some 0 \<and>
   Layer_max_y (add_data [0, 1, 2] [10, 20, 30] ''default'' (BarLayer_init ''bars'')) = Some 31.5"
proof -
  have h: "l_variant (add_data [0, 1, 2] [10, 20, 30] ''default'' (BarLayer_init ''bars''))
     = Bar (Some [0, 1, 2]) (Some [10, 20, 30]) []"
    by (simp add: add_data_def BarLayer_init_def Layer_init_def)
  have p: "\<forall>y\<in>set [10, 20, 30 :: real]. 0 < y" by simp
  show ?thesis using h p C8_bar_positive_extent [OF h _ p] by simp
qed




section \<open>Graph bounds\<close>

lemma reset_loop_total: "\<exists>g'. reset_loop ls g = Some g'"
proof (induction ls arbitrary: g)
  case Nil
  show ?case by simp
next
  case (Cons l ls)
  obtain x0 x1 y0 y1 where "Layer_min_x l = Some x0" "Layer_max_x l = Some x1"
    "Layer_min_y l = Some y0" "Layer_max_y l = Some y1"
    using Layer_min_x_total Layer_max_x_total Layer_min_y_total Layer_max_y_total by metis
  then show ?case using Cons.IH by simp
qed

lemma add_margin_default: "\<exists>g'. add_margin (default_bounds g) = Some g' \<and> known g'"
  by (simp add: add_margin_def default_bounds_def known_def Let_def)

lemma reset_bounds_known: "\<exists>g'. Graph_reset_bounds g = Some g' \<and> known g'"
  using reset_loop_total add_margin_default
  by (fastforce simp: Graph_reset_bounds_def bind_eq_Some_conv)

lemma lazy_read_known:
  "known g \<Longrightarrow> attr \<in> {g_min_x, g_max_x, g_min_y, g_max_y}
   \<Longrightarrow> lazy_read attr g = Some (the (attr g), g)"
  by (auto simp: lazy_read_def read_attr_def known_def)

lemma read_bounds_known: "known g \<Longrightarrow> read_bounds g = Some g"
  by (simp add: read_bounds_def Graph_min_x_def Graph_max_x_def Graph_min_y_def Graph_max_y_def
      lazy_read_known)

lemma render_layers_known: "known g \<Longrightarrow> render_layers ls g = Some g"
  by (induction ls) (simp_all add: read_bounds_known)

lemma Graph_render_known: "known g \<Longrightarrow> Graph_render g = Some g"
  by (simp add: Graph_render_def read_bounds_known render_layers_known)

lemma lazy_read_total:
  assumes "attr \<in> {g_min_x, g_max_x, g_min_y, g_max_y}"
  shows "\<exists>v g'. lazy_read attr g = Some (v, g') \<and> attr g' = Some v \<and>
           (attr g \<noteq> None \<longrightarrow> g' = g) \<and> (attr g = None \<longrightarrow> known g')"
proof (cases "attr g")
  case None
  obtain g' where g': "Graph_reset_bounds g = Some g'" "known g'"
    using reset_bounds_known by blast
  then have "attr g' \<noteq> None" using assms by (auto simp: known_def)
  then show ?thesis using None g' by (auto simp: lazy_read_def read_attr_def)
next
  case (Some v)
  then show ?thesis by (simp add: lazy_read_def read_attr_def)
qed

subsection \<open>Emptiness test\<close>

text \<open>
  C1 (the code differs): a graph whose only layer is a visible line layer holding the
  series \<open>x = [0,1,2,3]\<close>, \<open>y = [0,5,0,5]\<close> is reported empty, because \<open>is_empty\<close> looks at
  \<open>_data\<close>, which \<open>LineLayer.add_data\<close> never writes. And a graph whose only layer is a
  hidden base layer with an entry in \<open>_data\<close> is reported not empty: the test on the
  length of \<open>_data\<close> does not depend on the layer being visible.
\<close>

theorem C1_is_empty_ignores_series:
  "Graph_is_empty
     (add_layer (add_data [0, 1, 2, 3] [0, 5, 0, 5] ''default'' (LineLayer_init ''line''))
        Center 0 False (Graph_init ''g'' ''G'' ''u'' 100)) \<and>
   map (\<lambda>l. (l_visible l, x_data (l_variant l), y_data (l_variant l)))
     (layers
       (add_layer (add_data [0, 1, 2, 3] [0, 5, 0, 5] ''default'' (LineLayer_init ''line''))
          Center 0 False (Graph_init ''g'' ''G'' ''u'' 100)))
   = [(True, Some [0, 1, 2, 3], Some [0, 5, 0, 5])] \<and>
   \<not> Graph_is_empty
     (add_layer ((Layer_add_data ''k'' (PyNum 1) (Layer_init ''h'' Base))\<lparr> l_visible := False \<rparr>)
        Center 0 False (Graph_init ''g'' ''G'' ''u'' 100))"
  by (simp add: Graph_is_empty_def add_layer_def add_data_def LineLayer_init_def Layer_init_def
      Layer_add_data_def Graph_init_def isinstance_dict_def)

subsection \<open>Explicit bounds and lazy reads\<close>

text \<open>
  C2 (the code differs): on a new graph, \<open>set_x_bounds(2, 3)\<close> followed by a read of
  \<open>min_y()\<close> makes the next reads of \<open>min_x()\<close> and \<open>max_x()\<close> return 0 and 1: the lazy
  read of the y-bound runs \<open>reset_bounds()\<close>, which recomputes the x-bounds as well.
\<close>

theorem C2_lazy_y_read_resets_x:
  "do { (_, g) \<leftarrow> Graph_min_y (Graph_set_x_bounds 2 3 (Graph_init ''g'' ''G'' ''u'' 100));
        (x0, g) \<leftarrow> Graph_min_x g;
        (x1, g) \<leftarrow> Graph_max_x g;
        Some (x0, x1) } = Some (0, 1)"
  by (simp add: Graph_min_y_def Graph_min_x_def Graph_max_x_def lazy_read_def read_attr_def
      Graph_set_x_bounds_def Graph_init_def Graph_reset_bounds_def add_margin_def
      default_bounds_def Let_def)

subsection \<open>Reset without a visible layer\<close>

lemma reset_loop_hidden:
  "\<forall>l\<in>set ls. \<not> l_visible l \<Longrightarrow> reset_loop ls g = Some g"
  by (induction ls) simp_all

text \<open>
  C3, as the claim states it, fails: on a graph without layers \<open>reset_bounds()\<close> leaves the
  bounds \<open>(0, 1, -0.05, 1.05)\<close>, not \<open>(0, 1, 0, 1)\<close>, since the y-margin is added in
  every case.
\<close>

theorem C3_no_layers_counterexample:
  "map_option bounds_of (Graph_reset_bounds (Graph_init ''g'' ''G'' ''u'' 100))
     = Some (Some 0, Some 1, Some (- 0.05), Some 1.05) \<and>
   map_option bounds_of (Graph_reset_bounds (Graph_init ''g'' ''G'' ''u'' 100))
     \<noteq> Some (Some 0, Some 1, Some 0, Some 1)"
  by (simp add: Graph_init_def Graph_reset_bounds_def add_margin_def default_bounds_def
      bounds_of_def Let_def)

text \<open>
  C3, amended: on a graph with no visible layer (all layers hidden, or none at all)
  \<open>reset_bounds()\<close> yields the bounds \<open>(0, 1, -0.05, 1.05)\<close>: the unit range on both axes
  with the y-margin added.
\<close>

theorem C3_reset_bounds_no_visible_layer:
  assumes "\<forall>l\<in>set (layers g). \<not> l_visible l"
  shows "map_option bounds_of (Graph_reset_bounds g)
           = Some (Some 0, Some 1, Some (- 0.05), Some 1.05)"
  using reset_loop_hidden [OF assms]
  by (simp add: Graph_reset_bounds_def add_margin_def default_bounds_def bounds_of_def Let_def)

theorem C3_reset_bounds_no_visible_layer_witness:
  "list_all (\<lambda>l. \<not> l_visible l)
     (layers (add_layer
        ((add_data [0, 1, 2, 3] [0, 5, 0, 5] ''default'' (LineLayer_init ''a''))
           \<lparr> l_visible := False \<rparr>)
        Center 0 False (Graph_init ''g'' ''G'' ''u'' 100))) \<and>
   map_option bounds_of
     (Graph_reset_bounds (add_layer
        ((add_data [0, 1, 2, 3] [0, 5, 0, 5] ''default'' (LineLayer_init ''a''))
           \<lparr> l_visible := False \<rparr>)
        Center 0 False (Graph_init ''g'' ''G'' ''u'' 100)))
     = Some (Some 0, Some 1, Some (- 0.05), Some 1.05)"
  using C3_reset_bounds_no_visible_layer
    [of "add_layer
        ((add_data [0, 1, 2, 3] [0, 5, 0, 5] ''default'' (LineLayer_init ''a''))
           \<lparr> l_visible := False \<rparr>)
        Center 0 False (Graph_init ''g'' ''G'' ''u'' 100)"]
  by (simp add: add_layer_def add_data_def LineLayer_init_def Layer_init_def Graph_init_def)

text \<open>
  With a visible layer that holds no data the code does not reach its defaults (marked
  \<open># Default values if no data\<close> in the source): the layer's zero extent is taken as
  data and the x-range collapses to \<open>(0, 0)\<close>.
\<close>

lemma reset_bounds_visible_empty_layer:
  "map_option bounds_of
     (Graph_reset_bounds
        (add_layer (LineLayer_init ''a'') Center 0 False (Graph_init ''g'' ''G'' ''u'' 100)))
     = Some (Some 0, Some 0, Some (- 0.05), Some 0.05)"
  by (simp add: Graph_init_def Graph_reset_bounds_def add_margin_def default_bounds_def
      bounds_of_def Let_def add_layer_def LineLayer_init_def Layer_init_def Layer_min_x_def
      Layer_max_x_def Layer_min_y_def Layer_max_y_def scan_min_def scan_max_def
      scan_default_min_def scan_default_max_def keep_min_def keep_max_def)

section \<open>GraphView: setting bounds, history and redisplay\<close>

lemma set_x_idem:
  "Graph_set_x_bounds mn mx (Graph_set_x_bounds mn mx g) = Graph_set_x_bounds mn mx g"
  by (simp add: Graph_set_x_bounds_def)

lemma set_x_each_apply:
  "set_x_each mn mx rs st r = (if r \<in> set rs then Graph_set_x_bounds mn mx (st r) else st r)"
  by (induction rs arbitrary: st) (auto simp: set_x_idem)

lemma known_set_x: "known g \<Longrightarrow> known (Graph_set_x_bounds mn mx g)"
  by (simp add: known_def Graph_set_x_bounds_def)

lemma lazy_read_Some: "attr g = Some x \<Longrightarrow> lazy_read attr g = Some (x, g)"
  by (simp add: lazy_read_def read_attr_def)

subsection \<open>The redisplay returns, and changes nothing once the bounds are known\<close>

lemma read_bounds_total: "\<exists>g'. read_bounds g = Some g' \<and> known g'"
proof -
  obtain v1 g1 where r1: "lazy_read g_min_x g = Some (v1, g1)" "g_min_x g1 = Some v1"
      "g_min_x g \<noteq> None \<longrightarrow> g1 = g" "g_min_x g = None \<longrightarrow> known g1"
    using lazy_read_total [of g_min_x g] by auto
  obtain v2 g2 where r2: "lazy_read g_max_x g1 = Some (v2, g2)" "g_max_x g2 = Some v2"
      "g_max_x g1 \<noteq> None \<longrightarrow> g2 = g1" "g_max_x g1 = None \<longrightarrow> known g2"
    using lazy_read_total [of g_max_x g1] by auto
  obtain v3 g3 where r3: "lazy_read g_min_y g2 = Some (v3, g3)" "g_min_y g3 = Some v3"
      "g_min_y g2 \<noteq> None \<longrightarrow> g3 = g2" "g_min_y g2 = None \<longrightarrow> known g3"
    using lazy_read_total [of g_min_y g2] by auto
  obtain v4 g4 where r4: "lazy_read g_max_y g3 = Some (v4, g4)" "g_max_y g4 = Some v4"
      "g_max_y g3 \<noteq> None \<longrightarrow> g4 = g3" "g_max_y g3 = None \<longrightarrow> known g4"
    using lazy_read_total [of g_max_y g3] by auto
  have "read_bounds g = Some g4"
    using r1(1) r2(1) r3(1) r4(1)
    by (simp add: read_bounds_def Graph_min_x_def Graph_max_x_def Graph_min_y_def Graph_max_y_def)
  moreover have "known g4"
    using r1(2-) r2(2-) r3(2-) r4(2-) unfolding known_def by (metis option.distinct(1))
  ultimately show ?thesis by blast
qed

lemma Graph_render_total: "\<exists>g'. Graph_render g = Some g'"
proof (cases "g_visible g")
  case False
  then show ?thesis by (simp add: Graph_render_def)
next
  case True
  obtain g' where "read_bounds g = Some g'" "known g'" using read_bounds_total by blast
  then show ?thesis using True by (simp add: Graph_render_def render_layers_known)
qed

lemma display_loop_total: "\<exists>st'. display_loop n i rs st = Some st'"
proof (induction rs arbitrary: i st)
  case Nil
  show ?case by simp
next
  case (Cons r rs)
  obtain g' where "Graph_render (st r) = Some g'" using Graph_render_total by blast
  then show ?case using Cons.IH by simp
qed

lemma display_loop_known:
  "\<forall>r\<in>set rs. known (st r) \<Longrightarrow> display_loop n i rs st = Some st"
  by (induction rs arbitrary: i) (simp_all add: Graph_render_known)

lemma update_display_total:
  "\<exists>v'. update_display v = Some v' \<and> history v' = history v \<and>
     history_position v' = history_position v \<and> graphs v' = graphs v \<and> fig v' = fig v \<and>
     linked_groups v' = linked_groups v"
proof (cases "fig v")
  case False
  then show ?thesis by (simp add: update_display_def)
next
  case True
  obtain st where
    "display_loop (axes v) 0 (filter (\<lambda>r. g_visible (store v r)) (graphs v)) (store v) = Some st"
    using display_loop_total by blast
  then show ?thesis using True by (simp add: update_display_def)
qed

lemma update_display_known:
  assumes "fig v \<longrightarrow> (\<forall>r\<in>set (graphs v). known (store v r))"
  shows "update_display v = Some v"
proof (cases "fig v")
  case False
  then show ?thesis by (simp add: update_display_def)
next
  case True
  then have "\<forall>r\<in>set (filter (\<lambda>r. g_visible (store v r)) (graphs v)). known (store v r)"
    using assms by simp
  then have "display_loop (axes v) 0 (filter (\<lambda>r. g_visible (store v r)) (graphs v)) (store v)
      = Some (store v)"
    by (rule display_loop_known)
  then show ?thesis using True by (simp add: update_display_def)
qed

subsection \<open>What \<open>set_x_bounds\<close> computes\<close>

lemma GV_set_unfold:
  "GraphView_set_x_bounds mn mx grp v =
     (let v2 = v\<lparr> store := set_x_each mn mx (targets grp v) (store v),
                    history := (if history v = [] \<or> last (history v) \<noteq> (mn, mx)
                                then history v @ [(mn, mx)] else history v),
                    history_position := (if history v = [] \<or> last (history v) \<noteq> (mn, mx)
                                then int (length (history v)) else history_position v) \<rparr>
      in if fig v then update_display v2 else Some v2)"
  by (cases "if grp > 0 then linked_groups v grp else None")
     (auto simp: GraphView_set_x_bounds_def targets_def Let_def prod_eq_iff)

lemma GV_set_known:
  assumes "fig v \<longrightarrow> (\<forall>r\<in>set (graphs v). known (store v r))"
  shows "GraphView_set_x_bounds mn mx grp v =
     Some (v\<lparr> store := set_x_each mn mx (targets grp v) (store v),
               history := (if history v = [] \<or> last (history v) \<noteq> (mn, mx)
                           then history v @ [(mn, mx)] else history v),
               history_position := (if history v = [] \<or> last (history v) \<noteq> (mn, mx)
                           then int (length (history v)) else history_position v) \<rparr>)"
proof -
  let ?v2 = "v\<lparr> store := set_x_each mn mx (targets grp v) (store v),
               history := (if history v = [] \<or> last (history v) \<noteq> (mn, mx)
                           then history v @ [(mn, mx)] else history v),
               history_position := (if history v = [] \<or> last (history v) \<noteq> (mn, mx)
                           then int (length (history v)) else history_position v) \<rparr>"
  have "fig ?v2 \<longrightarrow> (\<forall>r\<in>set (graphs ?v2). known (store ?v2 r))"
    using assms by (simp add: set_x_each_apply known_set_x)
  then have "update_display ?v2 = Some ?v2" by (rule update_display_known)
  then show ?thesis by (simp add: GV_set_unfold Let_def)
qed

subsection \<open>History\<close>

text \<open>
  C5: a call \<open>set_x_bounds(min, max, group)\<close> returns, and it appends \<open>(min, max)\<close> to the
  history exactly when the history is empty or its last entry differs from \<open>(min, max)\<close>;
  when it appends, the cursor becomes the index of the new last entry, and otherwise
  history and cursor are as before.
\<close>

theorem C5_history_append:
  "\<exists>v'. GraphView_set_x_bounds mn mx grp v = Some v' \<and>
     (if history v = [] \<or> last (history v) \<noteq> (mn, mx)
      then history v' = history v @ [(mn, mx)] \<and>
           history_position v' = int (length (history v')) - 1
      else history v' = history v \<and> history_position v' = history_position v)"
proof -
  let ?v2 = "v\<lparr> store := set_x_each mn mx (targets grp v) (store v),
               history := (if history v = [] \<or> last (history v) \<noteq> (mn, mx)
                           then history v @ [(mn, mx)] else history v),
               history_position := (if history v = [] \<or> last (history v) \<noteq> (mn, mx)
                           then int (length (history v)) else history_position v) \<rparr>"
  obtain v' where v': "update_display ?v2 = Some v'" "history v' = history ?v2"
      "history_position v' = history_position ?v2"
    using update_display_total [of ?v2] by blast
  show ?thesis
  proof (cases "fig v")
    case True
    then have "GraphView_set_x_bounds mn mx grp v = Some v'"
      using v'(1) by (simp add: GV_set_unfold Let_def)
    then show ?thesis using v'(2,3) by auto
  next
    case False
    then have "GraphView_set_x_bounds mn mx grp v = Some ?v2"
      by (simp add: GV_set_unfold Let_def)
    then show ?thesis by auto
  qed
qed

theorem C5_history_append_witness:
  "map_option history
     (GraphView_set_x_bounds 2 3 0
        (add_graph 0 0 (GraphView_init ''v'' (\<lambda>_. Graph_init ''g'' ''G'' ''u'' 100))))
     = Some [(2, 3)] \<and>
   map_option history_position
     (GraphView_set_x_bounds 2 3 0
        (add_graph 0 0 (GraphView_init ''v'' (\<lambda>_. Graph_init ''g'' ''G'' ''u'' 100))))
     = Some 0"
  using C5_history_append
    [of 2 3 0 "add_graph 0 0 (GraphView_init ''v'' (\<lambda>_. Graph_init ''g'' ''G'' ''u'' 100))"]
  by (auto simp: add_graph_def GraphView_init_def Let_def)

subsection \<open>Link groups\<close>

text \<open>
  C4, as the claim states it, fails: with no link group registered under the id 5, the call
  \<open>set_x_bounds(2, 3, 5)\<close> sets the x-bounds of the view's pane to \<open>(2, 3)\<close>; the claim says
  that no pane changes.
\<close>

theorem C4_unregistered_group_counterexample:
  "map_option (pane_bounds 0)
     (GraphView_set_x_bounds 2 3 5
        (add_graph 0 0 (GraphView_init ''v'' (\<lambda>_. Graph_init ''g'' ''G'' ''u'' 100))))
     = Some (Some 2, Some 3, None, None) \<and>
   pane_bounds 0 (add_graph 0 0 (GraphView_init ''v'' (\<lambda>_. Graph_init ''g'' ''G'' ''u'' 100)))
     = (None, None, None, None) \<and>
   linked_groups (add_graph 0 0 (GraphView_init ''v'' (\<lambda>_. Graph_init ''g'' ''G'' ''u'' 100))) 5
     = None"
  by (simp add: GraphView_set_x_bounds_def add_graph_def GraphView_init_def Graph_init_def
      Graph_set_x_bounds_def pane_bounds_def bounds_of_def Let_def)

text \<open>
  C4, amended: for \<open>group > 0\<close>, when the group is registered, exactly its members get the
  x-bounds \<open>(min, max)\<close> and every other pane is unchanged; when it is not registered, every
  pane of the view gets them and nothing else changes. This is stated for a view whose
  redisplay recomputes no bounds: no figure yet, or every pane's four bounds known.
\<close>

theorem C4_group_bounds:
  assumes "grp > 0" and "fig v \<longrightarrow> (\<forall>r\<in>set (graphs v). known (store v r))"
  shows "\<exists>v'. GraphView_set_x_bounds mn mx grp v = Some v' \<and>
     (\<forall>r. store v' r =
        (if r \<in> set (case linked_groups v grp of Some members \<Rightarrow> members | None \<Rightarrow> graphs v)
         then Graph_set_x_bounds mn mx (store v r) else store v r))"
  using assms(1) GV_set_known [OF assms(2), of mn mx grp]
  by (simp add: set_x_each_apply targets_def)

theorem C4_group_bounds_witness:
  "(0::int) < 1 \<and>
   \<not> fig (add_graph 1 0 (add_graph 0 1
            (GraphView_init ''v'' (\<lambda>_. Graph_init ''g'' ''G'' ''u'' 100)))) \<and>
   map_option (pane_bounds 0)
     (GraphView_set_x_bounds 2 3 1
        (add_graph 1 0 (add_graph 0 1
           (GraphView_init ''v'' (\<lambda>_. Graph_init ''g'' ''G'' ''u'' 100)))))
     = Some (Some 2, Some 3, None, None) \<and>
   map_option (pane_bounds 1)
     (GraphView_set_x_bounds 2 3 1
        (add_graph 1 0 (add_graph 0 1
           (GraphView_init ''v'' (\<lambda>_. Graph_init ''g'' ''G'' ''u'' 100)))))
     = Some (None, None, None, None)"
proof -
  let ?V = "add_graph 1 0 (add_graph 0 1
              (GraphView_init ''v'' (\<lambda>_. Graph_init ''g'' ''G'' ''u'' 100)))"
  have f: "\<not> fig ?V" by (simp add: add_graph_def GraphView_init_def Let_def)
  then have h: "fig ?V \<longrightarrow> (\<forall>r\<in>set (graphs ?V). known (store ?V r))" by simp
  have g: "linked_groups ?V 1 = Some [0]"
    by (simp add: add_graph_def GraphView_init_def Let_def)
  have s: "store ?V = (\<lambda>_. Graph_init ''g'' ''G'' ''u'' 100)"
    by (simp add: add_graph_def GraphView_init_def Let_def)
  from C4_group_bounds [of 1 ?V 2 3, OF _ h] obtain v' where
    v': "GraphView_set_x_bounds 2 3 1 ?V = Some v'"
        "\<forall>r. store v' r =
           (if r \<in> set (case linked_groups ?V 1 of Some members \<Rightarrow> members | None \<Rightarrow> graphs ?V)
            then Graph_set_x_bounds 2 3 (store ?V r) else store ?V r)" by auto
  have "pane_bounds 0 v' = (Some 2, Some 3, None, None)"
       "pane_bounds 1 v' = (None, None, None, None)"
    using v'(2) g s
    by (simp_all add: pane_bounds_def bounds_of_def Graph_set_x_bounds_def Graph_init_def)
  then show ?thesis using f v'(1) by simp
qed

subsection \<open>Back and forward\<close>

text \<open>
  C6: on a new view (no figure, empty history), after \<open>set_x_bounds(a1, b1, ...)\<close> and
  \<open>set_x_bounds(a2, b2, ...)\<close> with \<open>(a2, b2)\<close> different from \<open>(a1, b1)\<close>, \<open>back()\<close>
  gives every pane of the view the x-bounds \<open>(a1, b1)\<close> and a following \<open>forward()\<close> gives
  every pane \<open>(a2, b2)\<close>, whatever the link groups; neither changes the history.
\<close>

theorem C6_back_forward:
  assumes "\<not> fig v" and "history v = []" and "(a1, b1) \<noteq> (a2, b2)"
  shows "\<exists>v1 v2 v3 v4.
     GraphView_set_x_bounds a1 b1 k1 v = Some v1 \<and>
     GraphView_set_x_bounds a2 b2 k2 v1 = Some v2 \<and>
     on_back v2 = Some v3 \<and> on_forward v3 = Some v4 \<and>
     (\<forall>r\<in>set (graphs v). Graph_min_x (store v3 r) = Some (a1, store v3 r)
                          \<and> Graph_max_x (store v3 r) = Some (b1, store v3 r)) \<and>
     (\<forall>r\<in>set (graphs v). Graph_min_x (store v4 r) = Some (a2, store v4 r)
                          \<and> Graph_max_x (store v4 r) = Some (b2, store v4 r)) \<and>
     history v3 = history v2 \<and> history v4 = history v2"
proof -
  define v1 where "v1 = v\<lparr> store := set_x_each a1 b1 (targets k1 v) (store v),
      history := [(a1, b1)], history_position := 0 \<rparr>"
  define v2 where "v2 = v1\<lparr> store := set_x_each a2 b2 (targets k2 v1) (store v1),
      history := [(a1, b1), (a2, b2)], history_position := 1 \<rparr>"
  define v3 where
    "v3 = v2\<lparr> history_position := 0, store := set_x_each a1 b1 (graphs v) (store v2) \<rparr>"
  define v4 where
    "v4 = v3\<lparr> history_position := 1, store := set_x_each a2 b2 (graphs v) (store v3) \<rparr>"
  have e1: "GraphView_set_x_bounds a1 b1 k1 v = Some v1"
    using assms(1,2) GV_set_known [of v a1 b1 k1] by (simp add: v1_def)
  have f1: "\<not> fig v1" "history v1 = [(a1, b1)]" "graphs v1 = graphs v"
    using assms(1) by (simp_all add: v1_def)
  have e2: "GraphView_set_x_bounds a2 b2 k2 v1 = Some v2"
    using f1 assms(3) GV_set_known [of v1 a2 b2 k2] by (simp add: v2_def)
  have f2: "\<not> fig v2" "history v2 = [(a1, b1), (a2, b2)]" "graphs v2 = graphs v"
      "history_position v2 = 1"
    using f1 by (simp_all add: v2_def)
  have e3: "on_back v2 = Some v3"
    using f2 by (simp add: on_back_def py_index_def update_display_def Let_def v3_def)
  have f3: "\<not> fig v3" "history v3 = [(a1, b1), (a2, b2)]" "graphs v3 = graphs v"
      "history_position v3 = 0"
    using f2 by (simp_all add: v3_def)
  have e4: "on_forward v3 = Some v4"
    using f3 by (simp add: on_forward_def py_index_def update_display_def Let_def v4_def)
  have b3: "\<forall>r\<in>set (graphs v). g_min_x (store v3 r) = Some a1 \<and> g_max_x (store v3 r) = Some b1"
    by (simp add: v3_def set_x_each_apply Graph_set_x_bounds_def)
  have b4: "\<forall>r\<in>set (graphs v). g_min_x (store v4 r) = Some a2 \<and> g_max_x (store v4 r) = Some b2"
    by (simp add: v4_def set_x_each_apply Graph_set_x_bounds_def)
  have h: "history v3 = history v2" "history v4 = history v2"
    using f2 f3 by (simp_all add: v4_def)
  show ?thesis
    using e1 e2 e3 e4 b3 b4 h
    by (auto simp: Graph_min_x_def Graph_max_x_def lazy_read_Some)
qed

theorem C6_back_forward_witness:
  "\<not> fig (add_graph 1 1 (add_graph 0 0
            (GraphView_init ''v'' (\<lambda>_. Graph_init ''g'' ''G'' ''u'' 100)))) \<and>
   history (add_graph 1 1 (add_graph 0 0
            (GraphView_init ''v'' (\<lambda>_. Graph_init ''g'' ''G'' ''u'' 100)))) = [] \<and>
   do { v1 \<leftarrow> GraphView_set_x_bounds 0 10 0
                 (add_graph 1 1 (add_graph 0 0
                    (GraphView_init ''v'' (\<lambda>_. Graph_init ''g'' ''G'' ''u'' 100))));
        v2 \<leftarrow> GraphView_set_x_bounds 2 5 1 v1;
        v3 \<leftarrow> on_back v2;
        v4 \<leftarrow> on_forward v3;
        Some (pane_bounds 0 v2, pane_bounds 1 v2, pane_bounds 0 v3, pane_bounds 1 v3,
              pane_bounds 0 v4, pane_bounds 1 v4, history v2, history v3, history v4) }
   = Some ((Some 0, Some 10, None, None), (Some 2, Some 5, None, None),
           (Some 0, Some 10, None, None), (Some 0, Some 10, None, None),
           (Some 2, Some 5, None, None), (Some 2, Some 5, None, None),
           [(0, 10), (2, 5)], [(0, 10), (2, 5)], [(0, 10), (2, 5)])"
  using C6_back_forward
    [of "add_graph 1 1 (add_graph 0 0
           (GraphView_init ''v'' (\<lambda>_. Graph_init ''g'' ''G'' ''u'' 100)))" 0 10 2 5 0 1]
  by (simp add: GraphView_set_x_bounds_def on_back_def on_forward_def py_index_def
      update_display_def add_graph_def GraphView_init_def Graph_init_def
      Graph_set_x_bounds_def pane_bounds_def bounds_of_def Let_def)

subsection \<open>Scroll zoom\<close>

lemma on_scroll_known:
  assumes "inaxes e" and "graphs v = r # rs"
    and "g_min_x (store v r) = Some lo" and "g_max_x (store v r) = Some hi"
  shows "on_scroll e v =
     GraphView_set_x_bounds
       (xdata e - (if button e = ''up'' then (hi - lo) * (1 - 0.1) else (hi - lo) * (1 + 0.1)) / 2)
       (xdata e + (if button e = ''up'' then (hi - lo) * (1 - 0.1) else (hi - lo) * (1 + 0.1)) / 2)
       0 v"
proof -
  have "(store v)(r := store v r) = store v" by simp
  then have "v\<lparr> store := (store v)(r := store v r) \<rparr> = v" by simp
  then show ?thesis
    using assms
    by (simp add: on_scroll_def Graph_min_x_def Graph_max_x_def lazy_read_Some Let_def)
qed

text \<open>
  The zoom round trip where the redisplay recomputes no bounds (no figure, or every pane's
  four bounds known): scrolling up and then down at \<open>c\<close>, on a first pane with x-bounds
  \<open>(lo, hi)\<close>, leaves that pane the x-bounds \<open>c \<plusminus> 0.495 * (hi - lo)\<close>.
\<close>

lemma scroll_up_down:
  assumes "inaxes e1" and "button e1 = ''up''" and "xdata e1 = c"
    and "inaxes e2" and "button e2 \<noteq> ''up''" and "xdata e2 = c"
    and "graphs v = r # rs"
    and "g_min_x (store v r) = Some lo" and "g_max_x (store v r) = Some hi"
    and "fig v \<longrightarrow> (\<forall>r\<in>set (graphs v). known (store v r))"
  shows "\<exists>v1 v2. on_scroll e1 v = Some v1 \<and> on_scroll e2 v1 = Some v2 \<and>
     g_min_x (store v2 r) = Some (c - 0.495 * (hi - lo)) \<and>
     g_max_x (store v2 r) = Some (c + 0.495 * (hi - lo))"
proof -
  let ?w = "hi - lo"
  let ?p = "(c - ?w * (1 - 0.1) / 2, c + ?w * (1 - 0.1) / 2)"
  define v1 where "v1 = v\<lparr> store := set_x_each (fst ?p) (snd ?p) (targets 0 v) (store v),
      history := (if history v = [] \<or> last (history v) \<noteq> ?p
                  then history v @ [?p] else history v),
      history_position := (if history v = [] \<or> last (history v) \<noteq> ?p
                  then int (length (history v)) else history_position v) \<rparr>"
  have e1: "on_scroll e1 v = Some v1"
    using on_scroll_known [OF assms(1) assms(7) assms(8) assms(9)]
      GV_set_known [OF assms(10), of "fst ?p" "snd ?p" 0] assms(2,3)
    by (simp add: v1_def)
  have t: "targets 0 v = graphs v" "targets 0 v1 = graphs v"
    by (simp_all add: targets_def v1_def)
  have g1: "graphs v1 = r # rs" using assms(7) by (simp add: v1_def)
  have b1: "g_min_x (store v1 r) = Some (c - ?w * (1 - 0.1) / 2)"
           "g_max_x (store v1 r) = Some (c + ?w * (1 - 0.1) / 2)"
    using assms(7) by (simp_all add: v1_def t set_x_each_apply Graph_set_x_bounds_def)
  have k1: "fig v1 \<longrightarrow> (\<forall>r\<in>set (graphs v1). known (store v1 r))"
    using assms(10) by (simp add: v1_def set_x_each_apply known_set_x)
  let ?w1 = "(c + ?w * (1 - 0.1) / 2) - (c - ?w * (1 - 0.1) / 2)"
  obtain v2 where e2: "on_scroll e2 v1 = Some v2"
    and s2: "store v2 = set_x_each (c - ?w1 * (1 + 0.1) / 2) (c + ?w1 * (1 + 0.1) / 2)
                          (graphs v) (store v1)"
    using on_scroll_known [OF assms(4) g1 b1]
      GV_set_known [OF k1, of "c - ?w1 * (1 + 0.1) / 2" "c + ?w1 * (1 + 0.1) / 2" 0]
      assms(5,6) t
    by simp
  have "g_min_x (store v2 r) = Some (c - ?w1 * (1 + 0.1) / 2)"
       "g_max_x (store v2 r) = Some (c + ?w1 * (1 + 0.1) / 2)"
    using assms(7) by (simp_all add: s2 set_x_each_apply Graph_set_x_bounds_def)
  moreover have "?w1 * (1 + 0.1) / 2 = 0.495 * ?w" by (simp add: field_simps)
  ultimately show ?thesis using e1 e2 by simp
qed

text \<open>
  C7 (the code differs): a displayed view with one axes; its first pane is visible, has the
  x-bounds \<open>(0, 10)\<close> set and no y-bounds computed yet (it was hidden when the view was
  shown). Scrolling up and then down at \<open>c = 5\<close> leaves the first pane the x-bounds
  \<open>(4.45, 5.55)\<close> and not \<open>(0.05, 9.95)\<close>: the redisplay after the first scroll reads
  \<open>min_y()\<close>, which runs \<open>reset_bounds()\<close> and replaces the zoomed x-bounds by \<open>(0, 1)\<close>.
\<close>

theorem C7_scroll_after_lazy_reset:
  "do { v1 \<leftarrow> on_scroll \<lparr> inaxes = True, button = ''up'', xdata = 5 \<rparr>
           \<lparr> gv_title = ''v'',
             store = (\<lambda>_. (Graph_init ''b'' ''B'' ''u'' 100)
                             \<lparr> g_min_x := Some 0, g_max_x := Some 1,
                               g_min_y := Some (- 0.05), g_max_y := Some 1.05 \<rparr>)
                     (0 := Graph_set_x_bounds 0 10 (Graph_init ''a'' ''A'' ''u'' 100)),
             graphs = [0, 1], linked_groups = Map.empty, fig = True, axes = 1,
             selecting = False, selection_start = None, selection_end = None,
             gv_current_time = None, history = [(0, 10)], history_position = 0 \<rparr>;
        v2 \<leftarrow> on_scroll \<lparr> inaxes = True, button = ''down'', xdata = 5 \<rparr> v1;
        Some (pane_bounds 0 v2) }
   = Some (Some 4.45, Some 5.55, Some (- 0.05), Some 1.05)"
  by (simp add: on_scroll_def GraphView_set_x_bounds_def update_display_def Graph_render_def
      read_bounds_def Graph_min_x_def Graph_max_x_def Graph_min_y_def Graph_max_y_def
      lazy_read_def read_attr_def Graph_reset_bounds_def add_margin_def default_bounds_def
      Graph_set_x_bounds_def Graph_init_def pane_bounds_def bounds_of_def Let_def)

end
